theory Spec2Isabelle
  imports Main "HOL-Library.Sublist" "HOL-Library.Word"
begin

section \<open>Data model of the store (internal/store.go)\<close>

subsection \<open>Dynamically typed column values\<close>

text \<open>
  A column value has Go's type \<^verbatim>\<open>any\<close>. The constructors below are the dynamic types a
  value can carry: the numeric kinds with their bit patterns, text, booleans, the nil
  interface, the two container shapes produced by JSON decoding, and \<open>Go_other\<close> for a
  value of any further Go type, carrying the name that \<^verbatim>\<open>%T\<close> prints for it.
\<close>

datatype any =
    Go_float64 "64 word"
  | Go_float32 "32 word"
  | Go_int "64 word"
  | Go_int8 "8 word"
  | Go_int16 "16 word"
  | Go_int32 "32 word"
  | Go_int64 "64 word"
  | Go_uint "64 word"
  | Go_uint8 "8 word"
  | Go_uint16 "16 word"
  | Go_uint32 "32 word"
  | Go_uint64 "64 word"
  | Go_string string
  | Go_bool bool
  | Go_nil
  | Go_map "(string \<times> any) list"
  | Go_slice "any list"
  | Go_other string

text \<open>The type name that the verb \<^verbatim>\<open>%T\<close> of package fmt prints.\<close>

fun type_name :: "any \<Rightarrow> string" where
  "type_name (Go_float64 _) = ''float64''"
| "type_name (Go_float32 _) = ''float32''"
| "type_name (Go_int _) = ''int''"
| "type_name (Go_int8 _) = ''int8''"
| "type_name (Go_int16 _) = ''int16''"
| "type_name (Go_int32 _) = ''int32''"
| "type_name (Go_int64 _) = ''int64''"
| "type_name (Go_uint _) = ''uint''"
| "type_name (Go_uint8 _) = ''uint8''"
| "type_name (Go_uint16 _) = ''uint16''"
| "type_name (Go_uint32 _) = ''uint32''"
| "type_name (Go_uint64 _) = ''uint64''"
| "type_name (Go_string _) = ''string''"
| "type_name (Go_bool _) = ''bool''"
| "type_name Go_nil = ''<nil>''"
| "type_name (Go_map _) = ''map[string]interface {}''"
| "type_name (Go_slice _) = ''[]interface {}''"
| "type_name (Go_other n) = n"

text \<open>The signed integer kinds of Go, of every width.\<close>

fun is_signed_integer :: "any \<Rightarrow> bool" where
  "is_signed_integer (Go_int _) = True"
| "is_signed_integer (Go_int8 _) = True"
| "is_signed_integer (Go_int16 _) = True"
| "is_signed_integer (Go_int32 _) = True"
| "is_signed_integer (Go_int64 _) = True"
| "is_signed_integer _ = False"

subsection \<open>Errors\<close>

text \<open>
  A Go error is a message, possibly wrapping another error: \<open>New\<close> is
  \<^verbatim>\<open>errors.New\<close> (and \<^verbatim>\<open>fmt.Errorf\<close> without \<^verbatim>\<open>%w\<close>, and any error of the engine),
  \<open>Wrapf p e\<close> is \<^verbatim>\<open>fmt.Errorf(p + "%w", e)\<close>.
\<close>

datatype error = New string | Wrapf string error

fun Error :: "error \<Rightarrow> string" where
  "Error (New m) = m"
| "Error (Wrapf p e) = p @ Error e"


subsection \<open>DataType and the type inferencer\<close>

datatype DataType = INVALID | VARCHAR | DOUBLE | INTEGER | BOOLEAN

fun DBType :: "DataType \<Rightarrow> string" where
  "DBType INVALID = ''''"
| "DBType VARCHAR = ''VARCHAR''"
| "DBType DOUBLE = ''DOUBLE''"
| "DBType INTEGER = ''INTEGER''"
| "DBType BOOLEAN = ''BOOLEAN''"

text \<open>The type switch of \<^verbatim>\<open>NewDataType\<close>, case by case, with its default.\<close>

fun NewDataType :: "any \<Rightarrow> DataType" where
  "NewDataType (Go_float64 _) = DOUBLE"
| "NewDataType (Go_float32 _) = DOUBLE"
| "NewDataType (Go_int _) = INTEGER"
| "NewDataType (Go_int32 _) = INTEGER"
| "NewDataType (Go_int64 _) = INTEGER"
| "NewDataType (Go_string _) = VARCHAR"
| "NewDataType (Go_bool _) = BOOLEAN"
| "NewDataType _ = INVALID"

definition Valid :: "DataType \<Rightarrow> bool" where
  "Valid k = (k \<noteq> INVALID)"

subsection \<open>Statements\<close>

text \<open>
  \<^verbatim>\<open>Columns\<close> is a Go map. A \<^verbatim>\<open>range\<close> over a map visits its entries in an order the
  runtime chooses afresh each time, so every function that ranges over the columns takes
  that order as an argument: a list \<open>ks\<close> of keys. \<open>range_order m ks\<close> says that \<open>ks\<close> is
  such an order for \<open>m\<close>, and \<open>go_range m ks\<close> is the sequence of entries visited.
\<close>

record InsertStatement =
  Table :: string
  Columns :: "string \<rightharpoonup> any"

record QueryStatement =
  Query :: string

definition range_order :: "(string \<rightharpoonup> any) \<Rightarrow> string list \<Rightarrow> bool" where
  "range_order m ks = (distinct ks \<and> set ks = dom m)"

fun go_range :: "(string \<rightharpoonup> any) \<Rightarrow> string list \<Rightarrow> (string \<times> any) list" where
  "go_range m [] = []"
| "go_range m (k # ks) =
     (case m k of None \<Rightarrow> go_range m ks | Some v \<Rightarrow> (k, v) # go_range m ks)"

text \<open>\<^verbatim>\<open>strings.Join\<close>.\<close>

fun Join :: "string list \<Rightarrow> string \<Rightarrow> string" where
  "Join [] sep = ''''"
| "Join [x] sep = x"
| "Join (x # y # xs) sep = x @ sep @ Join (y # xs) sep"

section \<open>Statement builders\<close>

text \<open>
  A Go function returning \<^verbatim>\<open>(string, error)\<close> returns the pair of both; a nil error
  is \<open>None\<close>.
\<close>

text \<open>The loop of \<^verbatim>\<open>CreateTableQueryString\<close>: it returns from inside at the first
  column whose kind is not valid, and otherwise appends one column definition.\<close>

fun CreateTable_cols :: "(string \<times> any) list \<Rightarrow> string list \<Rightarrow> error + string list" where
  "CreateTable_cols [] cols = Inr cols"
| "CreateTable_cols ((k, v) # kvs) cols =
     (let kind = NewDataType v in
      if \<not> Valid kind
      then Inl (New (''create Table: invalid data type for column ('' @ k @ ''): '' @ type_name v))
      else CreateTable_cols kvs (cols @ [k @ '' '' @ DBType kind]))"

definition CreateTableQueryString :: "string list \<Rightarrow> InsertStatement \<Rightarrow> string \<times> error option" where
  "CreateTableQueryString ks s =
     (case CreateTable_cols (go_range (Columns s) ks) [] of
        Inl err \<Rightarrow> ('''', Some err)
      | Inr cols \<Rightarrow>
          (''CREATE TABLE IF NOT EXISTS '' @ Table s @ ''('' @ Join cols '', '' @ '')'', None))"

definition AddColumnQueryString :: "InsertStatement \<Rightarrow> string \<Rightarrow> string \<times> error option" where
  "AddColumnQueryString s name =
     (case Columns s name of
        None \<Rightarrow> ('''', Some (New (''add column: column not present in InsertStatement: '' @ name)))
      | Some v \<Rightarrow>
          (let kind = NewDataType v in
           if \<not> Valid kind
           then ('''', Some (New (''add column: invalid data type for column ('' @ name @ ''): ''
                                  @ type_name v)))
           else (''ALTER TABLE '' @ Table s @ '' ADD COLUMN '' @ name @ '' '' @ DBType kind, None)))"

text \<open>\<^verbatim>\<open>Validate\<close> has a pointer receiver and checks it for nil: \<open>None\<close> is the nil pointer.\<close>

definition Validate :: "InsertStatement option \<Rightarrow> error option" where
  "Validate p =
     (case p of
        None \<Rightarrow> Some (New ''invalid InsertStatement: nil'')
      | Some s \<Rightarrow>
          if Table s = '''' then Some (New ''invalid InsertStatement: missing Table name'')
          else if Columns s = Map.empty then Some (New ''invalid InsertStatement: no Columns'')
          else None)"

text \<open>The loop of \<^verbatim>\<open>InsertStatement.Query\<close> with its three slices.\<close>

fun Query_loop ::
  "(string \<times> any) list \<Rightarrow> string list \<Rightarrow> any list \<Rightarrow> string list
     \<Rightarrow> string list \<times> any list \<times> string list" where
  "Query_loop [] keys vals placeholders = (keys, vals, placeholders)"
| "Query_loop ((k, v) # kvs) keys vals placeholders =
     Query_loop kvs (keys @ [k]) (vals @ [v]) (placeholders @ [''?''])"

definition InsertStatement_Query ::
  "string list \<Rightarrow> InsertStatement \<Rightarrow> string \<times> any list \<times> error option" where
  "InsertStatement_Query ks s =
     (case Query_loop (go_range (Columns s) ks) [] [] [] of
        (keys, vals, placeholders) \<Rightarrow>
          (''INSERT INTO '' @ Table s @ '' ('' @ Join keys '', '' @ '') VALUES (''
             @ Join placeholders '', '' @ '')'',
           vals, None))"

text \<open>\<^verbatim>\<open>QueryStatement.Valid\<close>, again with a nil check on the receiver.\<close>

definition QueryStatement_Valid :: "QueryStatement option \<Rightarrow> error option" where
  "QueryStatement_Valid p =
     (case p of
        None \<Rightarrow> Some (New ''invalid QueryStatement: nil'')
      | Some s \<Rightarrow>
          if Query s = '''' then Some (New ''invalid QueryStatement: Query empty'')
          else None)"

section \<open>Regular expressions (package regexp, the fragment the store uses)\<close>

text \<open>
  Both patterns of the store are concatenations of literal text and of one-or-more
  repetitions of a character class, the repetition possibly inside a capturing group.
  \<open>Lit l\<close> is the literal \<open>l\<close>; \<open>ClassPlus False cls\<close> is \<^verbatim>\<open>[cls]+\<close> and
  \<open>ClassPlus True cls\<close> is \<^verbatim>\<open>([cls]+)\<close>. A class is a list of ranges \<open>(lo, hi)\<close>.
  Strings are byte sequences; the patterns are ASCII, so matching bytes is matching runes.
\<close>

type_synonym char_class = "(char \<times> char) list"

datatype re_node = Lit string | ClassPlus bool char_class

type_synonym regexp = "re_node list"

definition in_class :: "char_class \<Rightarrow> char \<Rightarrow> bool" where
  "in_class cls c =
     list_ex (\<lambda>(lo, hi). (of_char lo :: nat) \<le> of_char c \<and> (of_char c :: nat) \<le> of_char hi) cls"

text \<open>
  Matching at the start of the input, with the preference order of Go's regexp
  (leftmost-first): the repetition is greedy, so the longest run of class characters is
  tried first and shorter ones after it. The result is the matched text and the
  captured groups.
\<close>

fun match_here :: "regexp \<Rightarrow> string \<Rightarrow> (string \<times> string list) option"
  and try_runs :: "bool \<Rightarrow> regexp \<Rightarrow> string \<Rightarrow> string list \<Rightarrow> (string \<times> string list) option"
where
  "match_here [] s = Some ([], [])"
| "match_here (Lit l # ns) s =
     (if prefix l s
      then (case match_here ns (drop (length l) s) of
              None \<Rightarrow> None
            | Some (m, caps) \<Rightarrow> Some (l @ m, caps))
      else None)"
| "match_here (ClassPlus cap cls # ns) s =
     try_runs cap ns s (rev (tl (prefixes (takeWhile (in_class cls) s))))"
| "try_runs cap ns s [] = None"
| "try_runs cap ns s (r # rs) =
     (case match_here ns (drop (length r) s) of
        None \<Rightarrow> try_runs cap ns s rs
      | Some (m, caps) \<Rightarrow> Some (r @ m, if cap then r # caps else caps))"

text \<open>The unanchored search: the leftmost position at which the pattern matches.\<close>

fun search :: "regexp \<Rightarrow> string \<Rightarrow> (string \<times> string list) option" where
  "search re [] = match_here re []"
| "search re (c # cs) =
     (case match_here re (c # cs) of
        None \<Rightarrow> search re cs
      | Some r \<Rightarrow> Some r)"

definition MatchString :: "regexp \<Rightarrow> string \<Rightarrow> bool" where
  "MatchString re s = (search re s \<noteq> None)"

text \<open>\<^verbatim>\<open>FindStringSubmatch\<close>: the match and the groups, or the nil slice.\<close>

definition FindStringSubmatch :: "regexp \<Rightarrow> string \<Rightarrow> string list" where
  "FindStringSubmatch re s = (case search re s of None \<Rightarrow> [] | Some (m, caps) \<Rightarrow> m # caps)"

text \<open>The class \<^verbatim>\<open>[a-zA-Z_]\<close> and the two patterns.\<close>

definition name_class :: char_class where
  "name_class = [(CHR ''a'', CHR ''z''), (CHR ''A'', CHR ''Z''), (CHR ''_'', CHR ''_'')]"

definition missingTableRegex :: regexp where
  "missingTableRegex =
     [Lit ''Catalog Error: Table with name '', ClassPlus False name_class,
      Lit '' does not exist!'']"

definition missingColumnRegex :: regexp where
  "missingColumnRegex =
     [Lit ''Binder Error: Table \"'', ClassPlus False name_class,
      Lit ''\" does not have a column with name \"'', ClassPlus True name_class,
      Lit ''\"'']"

section \<open>The store\<close>

text \<open>
  The engine behind \<^verbatim>\<open>database/sql\<close> is a parameter: \<^verbatim>\<open>ExecContext\<close> takes the
  engine's state, the SQL text and the positional parameters and returns its error
  (\<open>None\<close> is nil) and the new state. The \<^verbatim>\<open>sql.Result\<close> is dropped, as the store drops it.
\<close>

type_synonym 'db ExecContext = "'db \<Rightarrow> string \<Rightarrow> any list \<Rightarrow> error option \<times> 'db"

text \<open>A call either returns or panics.\<close>

datatype 'a outcome = Return 'a | Panic string

definition CreateTable ::
  "'db ExecContext \<Rightarrow> string list \<Rightarrow> 'db \<Rightarrow> InsertStatement \<Rightarrow> error option \<times> 'db" where
  "CreateTable exec ks db stmt =
     (case CreateTableQueryString ks stmt of
        (query, Some err) \<Rightarrow> (Some err, db)
      | (query, None) \<Rightarrow>
          (case exec db query [] of
             (Some err, db') \<Rightarrow> (Some (Wrapf ''creating Table: '' err), db')
           | (None, db') \<Rightarrow> (None, db')))"

definition AddColumn ::
  "'db ExecContext \<Rightarrow> 'db \<Rightarrow> InsertStatement \<Rightarrow> string \<Rightarrow> error option \<times> 'db" where
  "AddColumn exec db stmt name =
     (case AddColumnQueryString stmt name of
        (query, Some err) \<Rightarrow> (Some err, db)
      | (query, None) \<Rightarrow>
          (case exec db query [] of
             (Some err, db') \<Rightarrow> (Some (Wrapf ''creating Table: '' err), db')
           | (None, db') \<Rightarrow> (None, db')))"

text \<open>
  \<^verbatim>\<open>handleInsertError\<close>. The index \<^verbatim>\<open>matches[1]\<close> panics when the slice is shorter
  than two.
\<close>

definition handleInsertError ::
  "'db ExecContext \<Rightarrow> string list \<Rightarrow> 'db \<Rightarrow> InsertStatement \<Rightarrow> error option
     \<Rightarrow> error option outcome \<times> 'db" where
  "handleInsertError exec ks db stmt err =
     (case err of
        None \<Rightarrow> (Return None, db)
      | Some e \<Rightarrow>
          if MatchString missingTableRegex (Error e)
          then (case CreateTable exec ks db stmt of (r, db') \<Rightarrow> (Return r, db'))
          else if MatchString missingColumnRegex (Error e)
          then (let matches = FindStringSubmatch missingColumnRegex (Error e) in
                if 1 < length matches
                then (case AddColumn exec db stmt (matches ! 1) of (r, db') \<Rightarrow> (Return r, db'))
                else (Panic ''index out of range [1]'', db))
          else (Return (Some (Wrapf ''inserting values: '' e)), db))"

text \<open>
  One pass through the body of the \<^verbatim>\<open>for\<close> loop of \<^verbatim>\<open>Insert\<close>: \<open>Inl\<close> leaves the
  loop (the \<^verbatim>\<open>break\<close> followed by \<^verbatim>\<open>return nil\<close>, or the \<^verbatim>\<open>return handledErr\<close>),
  \<open>Inr\<close> goes round again. \<open>ks\<close> is the order in which this pass ranges over the columns,
  should it build a CREATE TABLE.
\<close>

definition Insert_step ::
  "'db ExecContext \<Rightarrow> string list \<Rightarrow> InsertStatement \<Rightarrow> string \<Rightarrow> any list \<Rightarrow> 'db
     \<Rightarrow> (error option outcome \<times> 'db) + 'db" where
  "Insert_step exec ks stmt query vals db =
     (case exec db query vals of
        (None, db') \<Rightarrow> Inl (Return None, db')
      | (Some insertErr, db') \<Rightarrow>
          (case handleInsertError exec ks db' stmt (Some insertErr) of
             (Return None, db'') \<Rightarrow> Inr db''
           | (r, db'') \<Rightarrow> Inl (r, db'')))"

text \<open>
  The loop has no exit condition of its own, so it is a partial function: \<open>None\<close> is the
  loop that never ends. \<open>ord n\<close> is the range order of pass \<open>n\<close>.
\<close>

partial_function (option) Insert_loop ::
  "'db ExecContext \<Rightarrow> (nat \<Rightarrow> string list) \<Rightarrow> InsertStatement \<Rightarrow> string \<Rightarrow> any list \<Rightarrow> nat \<Rightarrow> 'db
     \<Rightarrow> (error option outcome \<times> 'db) option" where
  "Insert_loop exec ord stmt query vals n db =
     (case Insert_step exec (ord n) stmt query vals db of
        Inl r \<Rightarrow> Some r
      | Inr db' \<Rightarrow> Insert_loop exec ord stmt query vals (Suc n) db')"

text \<open>
  \<^verbatim>\<open>Store.Insert\<close>. The statement is a pointer; \<^verbatim>\<open>stmt.Query()\<close> dereferences it, which
  panics on nil. \<open>ks\<close> is the range order of \<^verbatim>\<open>stmt.Query()\<close>. The write lock is taken
  on entry and released by the deferred unlock; it does not show in a sequential run.
\<close>

definition Insert ::
  "'db ExecContext \<Rightarrow> string list \<Rightarrow> (nat \<Rightarrow> string list) \<Rightarrow> 'db \<Rightarrow> InsertStatement option
     \<Rightarrow> (error option outcome \<times> 'db) option" where
  "Insert exec ks ord db p =
     (case p of
        None \<Rightarrow> Some (Panic ''invalid memory address or nil pointer dereference'', db)
      | Some stmt \<Rightarrow>
          (case InsertStatement_Query ks stmt of
             (query, vals, Some err) \<Rightarrow> Some (Return (Some err), db)
           | (query, vals, None) \<Rightarrow> Insert_loop exec ord stmt query vals 0 db))"

subsection \<open>The read path\<close>

text \<open>
  \<^verbatim>\<open>QueryContext\<close> returns an error or the rows. Of \<^verbatim>\<open>sql.Rows\<close> the store uses
  \<^verbatim>\<open>Columns\<close>, the sequence of rows that \<^verbatim>\<open>Next\<close> steps through with the outcome of
  \<^verbatim>\<open>Scan\<close> on each, and \<^verbatim>\<open>Err\<close> after the last one. \<^verbatim>\<open>Scan\<close> is given one destination
  per column and fills each, so a scanned row has one value per column.
\<close>

record sql_rows =
  rows_Columns :: "error + string list"
  rows_Scan :: "(error + any list) list"
  rows_Err :: "error option"

type_synonym 'db QueryContext = "'db \<Rightarrow> string \<Rightarrow> (error + sql_rows) \<times> 'db"

type_synonym row = "string \<rightharpoonup> any"

text \<open>The inner loop: \<^verbatim>\<open>m[colName] = *val\<close> for every column with its scanned value, in order.\<close>

fun row_fill :: "(string \<times> any) list \<Rightarrow> row \<Rightarrow> row" where
  "row_fill [] m = m"
| "row_fill ((colName, val) # rest) m = row_fill rest (m(colName \<mapsto> val))"

definition row_map :: "string list \<Rightarrow> any list \<Rightarrow> row" where
  "row_map cols vals = row_fill (zip cols vals) Map.empty"

text \<open>The loop over \<^verbatim>\<open>rows.Next()\<close>; a failing \<^verbatim>\<open>Scan\<close> returns from inside it.\<close>

fun scan_rows :: "string list \<Rightarrow> (error + any list) list \<Rightarrow> row list \<Rightarrow> error + row list" where
  "scan_rows cols [] out = Inr out"
| "scan_rows cols (Inl err # rest) out = Inl err"
| "scan_rows cols (Inr vals # rest) out = scan_rows cols rest (out @ [row_map cols vals])"

text \<open>
  \<^verbatim>\<open>Store.Query\<close> returns the pair of the rows and the error. The deferred
  \<^verbatim>\<open>rows.Close\<close> only logs. After a nil result of \<^verbatim>\<open>Valid\<close> the statement is
  dereferenced.
\<close>

definition Store_Query ::
  "'db QueryContext \<Rightarrow> 'db \<Rightarrow> QueryStatement option \<Rightarrow> (row list \<times> error option) outcome \<times> 'db" where
  "Store_Query query db p =
     (case QueryStatement_Valid p of
        Some err \<Rightarrow> (Return ([], Some err), db)
      | None \<Rightarrow>
          (case p of
             None \<Rightarrow> (Panic ''invalid memory address or nil pointer dereference'', db)
           | Some stmt \<Rightarrow>
               (case query db (Query stmt) of
                  (Inl err, db') \<Rightarrow> (Return ([], Some (Wrapf ''query: '' err)), db')
                | (Inr rows, db') \<Rightarrow>
                    (case rows_Columns rows of
                       Inl err \<Rightarrow> (Return ([], Some (Wrapf ''Query response Columns: '' err)), db')
                     | Inr cols \<Rightarrow>
                         (case scan_rows cols (rows_Scan rows) [] of
                            Inl err \<Rightarrow> (Return ([], Some (Wrapf ''scanning column: '' err)), db')
                          | Inr out \<Rightarrow>
                              (case rows_Err rows of
                                 Some err \<Rightarrow> (Return ([], Some (Wrapf ''flushing rows: '' err)), db')
                               | None \<Rightarrow> (Return (out, None), db')))))))"

subsection \<open>The handler of POST /data (internal/server.go)\<close>

text \<open>
  The calls made on the \<^verbatim>\<open>http.ResponseWriter\<close>, in order. \<^verbatim>\<open>writeError\<close> writes the
  status code and the message of the error.
\<close>

datatype response_call = WriteHeader nat | Write string

definition writeError :: "nat \<Rightarrow> error \<Rightarrow> response_call list" where
  "writeError code err = [WriteHeader code, Write (Error err)]"

text \<open>
  \<^verbatim>\<open>HandleData\<close>, from the decoded body on: \<open>body\<close> is what the JSON decoder returned.
  After a failed \<^verbatim>\<open>Validate\<close> the handler writes the error and, having no
  \<^verbatim>\<open>return\<close> there, goes on to \<^verbatim>\<open>Insert\<close>.
\<close>

definition HandleData ::
  "'db ExecContext \<Rightarrow> string list \<Rightarrow> (nat \<Rightarrow> string list) \<Rightarrow> 'db \<Rightarrow> string
     \<Rightarrow> error + (string \<rightharpoonup> any) \<Rightarrow> (response_call list outcome \<times> 'db) option" where
  "HandleData exec ks ord db table body =
     (case body of
        Inl err \<Rightarrow> Some (Return (writeError 400 err), db)
      | Inr columns \<Rightarrow>
          (let stmt = \<lparr>Table = table, Columns = columns\<rparr>;
               w = (case Validate (Some stmt) of
                      Some err \<Rightarrow> writeError 400 err
                    | None \<Rightarrow> [])
           in case Insert exec ks ord db (Some stmt) of
                None \<Rightarrow> None
              | Some (Panic msg, db') \<Rightarrow> Some (Panic msg, db')
              | Some (Return (Some err), db') \<Rightarrow> Some (Return (w @ writeError 500 err), db')
              | Some (Return None, db') \<Rightarrow> Some (Return (w @ [WriteHeader 200]), db')))"

section \<open>Auxiliary notions for the statements\<close>

text \<open>The column definition that CREATE TABLE carries for one entry of the columns.\<close>

definition column_def :: "string \<times> any \<Rightarrow> string" where
  "column_def kv = fst kv @ '' '' @ DBType (NewDataType (snd kv))"

text \<open>The nodes of a pattern that capture a group.\<close>

definition capturing :: "re_node \<Rightarrow> bool" where
  "capturing n = (case n of Lit _ \<Rightarrow> False | ClassPlus cap _ \<Rightarrow> cap)"





text \<open>The runtime that ranges over the columns in the same order in every pass.\<close>

definition every_pass :: "string list \<Rightarrow> nat \<Rightarrow> string list" where
  "every_pass ks n = ks"

subsection \<open>Engines for concrete runs\<close>

text \<open>
  A mock engine: its state is the script of the errors still to be answered, one per
  call, and the log of the calls received. When the script is used up it answers nil.
\<close>

type_synonym mock_db = "error option list \<times> (string \<times> any list) list"

definition mock_ExecContext :: "mock_db ExecContext" where
  "mock_ExecContext db query args =
     (case fst db of
        [] \<Rightarrow> (None, ([], snd db @ [(query, args)]))
      | r # script \<Rightarrow> (r, (script, snd db @ [(query, args)])))"


text \<open>A mock of the read side: it answers every query with the same rows and counts the calls.\<close>

definition mock_QueryContext :: "sql_rows \<Rightarrow> nat QueryContext" where
  "mock_QueryContext rows calls query = (Inr rows, Suc calls)"

section \<open>The statement builders and the type inferencer\<close>

lemma go_range_keys: "set ks \<subseteq> dom m \<Longrightarrow> map fst (go_range m ks) = ks"
  by (induction ks) (auto split: option.splits)

lemma go_range_vals: "set ks \<subseteq> dom m \<Longrightarrow> map (\<lambda>kv. Some (snd kv)) (go_range m ks) = map m ks"
  by (induction ks) (auto split: option.splits)

lemma go_range_entries: "(k, v) \<in> set (go_range m ks) \<Longrightarrow> m k = Some v"
  by (induction ks) (auto split: option.splits)

lemma Query_loop_eq:
  "Query_loop kvs keys vals phs =
     (keys @ map fst kvs, vals @ map snd kvs, phs @ replicate (length kvs) ''?'')"
  by (induction kvs arbitrary: keys vals phs) (auto simp: replicate_append_same)

text \<open>
  Claim C7. For every statement and every order \<open>ks\<close> in which the call ranges over the
  columns, the insert builder returns the text
  \<^verbatim>\<open>INSERT INTO <table> (<cols>) VALUES (?, ...)\<close> with the columns listed in that order and
  one placeholder per column, together with a parameter list of the same length whose
  \<open>i\<close>-th entry is the value of the \<open>i\<close>-th listed column. The error is always nil: no
  value is type-checked.
\<close>

theorem Query_text_and_params:
  assumes "range_order (Columns s) ks"
  shows "\<exists>vals. InsertStatement_Query ks s =
           (''INSERT INTO '' @ Table s @ '' ('' @ Join ks '', '' @ '') VALUES (''
              @ Join (replicate (length ks) ''?'') '', '' @ '')'', vals, None)
         \<and> length vals = length ks
         \<and> (\<forall>i < length ks. Columns s (ks ! i) = Some (vals ! i))"
proof -
  let ?kvs = "go_range (Columns s) ks"
  from assms have sub: "set ks \<subseteq> dom (Columns s)" by (simp add: range_order_def)
  have k: "map fst ?kvs = ks" using sub by (rule go_range_keys)
  have v: "map (\<lambda>kv. Some (snd kv)) ?kvs = map (Columns s) ks" using sub by (rule go_range_vals)
  have len: "length ?kvs = length ks" using k by (metis length_map)
  have nth: "Columns s (ks ! i) = Some (map snd ?kvs ! i)" if "i < length ks" for i
  proof -
    have "map (Columns s) ks ! i = map (\<lambda>kv. Some (snd kv)) ?kvs ! i" using v by simp
    with that len show ?thesis by simp
  qed
  show ?thesis
    by (intro exI [of _ "map snd ?kvs"]) (simp add: InsertStatement_Query_def Query_loop_eq k len nth)
qed

text \<open>
  The statement at a table with columns \<open>a\<close> and \<open>b\<close>, ranged over as \<open>b\<close>, \<open>a\<close>; the
  nil value of \<open>b\<close> is passed on unchecked.
\<close>

theorem Query_text_and_params_witness:
  "range_order [''a'' \<mapsto> Go_int 1, ''b'' \<mapsto> Go_nil] [''b'', ''a''] \<and>
   (\<exists>vals. InsertStatement_Query [''b'', ''a'']
       \<lparr>Table = ''t'', Columns = [''a'' \<mapsto> Go_int 1, ''b'' \<mapsto> Go_nil]\<rparr> =
         (''INSERT INTO t (b, a) VALUES (?, ?)'', vals, None) \<and>
      length vals = 2 \<and> vals ! 0 = Go_nil \<and> vals ! 1 = Go_int 1)"
proof -
  have h: "range_order (Columns \<lparr>Table = ''t'', Columns = [''a'' \<mapsto> Go_int 1, ''b'' \<mapsto> Go_nil]\<rparr>)
             [''b'', ''a'']"
    by (auto simp: range_order_def)
  from Query_text_and_params [OF h] obtain vals where
    q: "InsertStatement_Query [''b'', ''a'']
          \<lparr>Table = ''t'', Columns = [''a'' \<mapsto> Go_int 1, ''b'' \<mapsto> Go_nil]\<rparr> =
        (''INSERT INTO t (b, a) VALUES (?, ?)'', vals, None)"
    and l: "length vals = 2"
    and v: "\<forall>i < 2. [''a'' \<mapsto> Go_int 1, ''b'' \<mapsto> Go_nil] ([''b'', ''a''] ! i) = Some (vals ! i)"
    by auto
  from v [rule_format, of 0] v [rule_format, of 1] have "vals ! 0 = Go_nil" "vals ! 1 = Go_int 1"
    by simp_all
  with q l h show ?thesis by auto
qed

lemma CreateTable_cols_valid:
  "\<forall>kv \<in> set kvs. NewDataType (snd kv) \<noteq> INVALID \<Longrightarrow>
   CreateTable_cols kvs cols = Inr (cols @ map column_def kvs)"
  by (induction kvs arbitrary: cols) (auto simp: Valid_def column_def_def)

lemma CreateTable_cols_invalid:
  "\<exists>kv \<in> set kvs. NewDataType (snd kv) = INVALID \<Longrightarrow>
   \<exists>k v. (k, v) \<in> set kvs \<and> NewDataType v = INVALID \<and>
     CreateTable_cols kvs cols =
       Inl (New (''create Table: invalid data type for column ('' @ k @ ''): '' @ type_name v))"
proof (induction kvs arbitrary: cols)
  case Nil
  then show ?case by simp
next
  case (Cons kv kvs)
  obtain k v where kv: "kv = (k, v)" by (cases kv)
  show ?case
  proof (cases "NewDataType v = INVALID")
    case True
    then show ?thesis unfolding kv by (intro exI [of _ k] exI [of _ v]) (simp add: Valid_def)
  next
    case False
    with Cons.prems kv have "\<exists>kv \<in> set kvs. NewDataType (snd kv) = INVALID" by auto
    from Cons.IH [OF this, of "cols @ [k @ '' '' @ DBType (NewDataType v)]"] False
    show ?thesis unfolding kv by (auto simp: Valid_def)
  qed
qed

text \<open>
  Claim C3. For every statement and range order: if some column has the kind INVALID, the
  create-table builder returns the empty text and an error that names such a column (with
  the type of its value); otherwise it returns
  \<^verbatim>\<open>CREATE TABLE IF NOT EXISTS <table>(<col> <DBTYPE>, ...)\<close> with one column definition for
  every column of the statement, each with the DB type inferred for its value.
\<close>

theorem CreateTableQueryString_all_or_nothing:
  assumes "range_order (Columns s) ks"
  shows "((\<exists>k v. Columns s k = Some v \<and> NewDataType v = INVALID) \<longrightarrow>
          (\<exists>k v. Columns s k = Some v \<and> NewDataType v = INVALID \<and>
                CreateTableQueryString ks s =
                  ('''', Some (New (''create Table: invalid data type for column ('' @ k @ ''): ''
                                    @ type_name v))))) \<and>
         (\<not> (\<exists>k v. Columns s k = Some v \<and> NewDataType v = INVALID) \<longrightarrow>
          (\<exists>defs. CreateTableQueryString ks s =
                  (''CREATE TABLE IF NOT EXISTS '' @ Table s @ ''('' @ Join defs '', '' @ '')'', None)
                \<and> length defs = length ks
                \<and> (\<forall>i < length ks. \<exists>v. Columns s (ks ! i) = Some v \<and>
                      defs ! i = ks ! i @ '' '' @ DBType (NewDataType v))))"
proof -
  let ?kvs = "go_range (Columns s) ks"
  from assms have sub: "set ks \<subseteq> dom (Columns s)" and dom: "dom (Columns s) = set ks"
    by (simp_all add: range_order_def)
  have keys: "map fst ?kvs = ks" using sub by (rule go_range_keys)
  have len: "length ?kvs = length ks" using keys by (metis length_map)
  show ?thesis
  proof (cases "\<exists>k v. Columns s k = Some v \<and> NewDataType v = INVALID")
    case True
    then obtain k v where kv: "Columns s k = Some v" "NewDataType v = INVALID" by blast
    then have "k \<in> set (map fst ?kvs)" using dom keys by auto
    then obtain v' where "(k, v') \<in> set ?kvs" by auto
    moreover from this have "v' = v" using kv(1) go_range_entries by fastforce
    ultimately have "\<exists>kv \<in> set ?kvs. NewDataType (snd kv) = INVALID" using kv(2) by force
    from CreateTable_cols_invalid [OF this, of "[]"]
    obtain k' v' where "(k', v') \<in> set ?kvs" "NewDataType v' = INVALID"
      "CreateTable_cols ?kvs [] =
         Inl (New (''create Table: invalid data type for column ('' @ k' @ ''): '' @ type_name v'))"
      by blast
    then have "Columns s k' = Some v' \<and> NewDataType v' = INVALID \<and>
                CreateTableQueryString ks s =
                  ('''', Some (New (''create Table: invalid data type for column ('' @ k' @ ''): ''
                                    @ type_name v')))"
      by (simp add: CreateTableQueryString_def go_range_entries)
    with True show ?thesis by blast
  next
    case False
    then have ok: "\<forall>kv \<in> set ?kvs. NewDataType (snd kv) \<noteq> INVALID"
      by (auto dest: go_range_entries)
    have res: "CreateTableQueryString ks s =
            (''CREATE TABLE IF NOT EXISTS '' @ Table s @ ''('' @ Join (map column_def ?kvs) '', ''
               @ '')'', None)"
      by (simp add: CreateTableQueryString_def CreateTable_cols_valid [OF ok])
    have nth: "\<exists>v. Columns s (ks ! i) = Some v \<and>
                 map column_def ?kvs ! i = ks ! i @ '' '' @ DBType (NewDataType v)"
      if i: "i < length ks" for i
    proof -
      have "fst (?kvs ! i) = ks ! i" using keys i len by (metis nth_map)
      moreover have "?kvs ! i \<in> set ?kvs" using i len by simp
      ultimately have "Columns s (ks ! i) = Some (snd (?kvs ! i))"
        using go_range_entries [of "ks ! i" "snd (?kvs ! i)"] by (metis prod.collapse)
      moreover have "map column_def ?kvs ! i = ks ! i @ '' '' @ DBType (NewDataType (snd (?kvs ! i)))"
        using i len \<open>fst (?kvs ! i) = ks ! i\<close> by (simp add: column_def_def)
      ultimately show ?thesis by blast
    qed
    from res len nth have "\<exists>defs. CreateTableQueryString ks s =
                  (''CREATE TABLE IF NOT EXISTS '' @ Table s @ ''('' @ Join defs '', '' @ '')'', None)
                \<and> length defs = length ks
                \<and> (\<forall>i < length ks. \<exists>v. Columns s (ks ! i) = Some v \<and>
                      defs ! i = ks ! i @ '' '' @ DBType (NewDataType v))"
      by (intro exI [of _ "map column_def ?kvs"]) simp
    with False show ?thesis by blast
  qed
qed

text \<open>
  A statement whose columns are all valid, and one with a nil value.
\<close>

theorem CreateTableQueryString_all_or_nothing_witness:
  "range_order [''a'' \<mapsto> Go_int 1, ''b'' \<mapsto> Go_string ''2''] [''a'', ''b''] \<and>
   CreateTableQueryString [''a'', ''b'']
       \<lparr>Table = ''t'', Columns = [''a'' \<mapsto> Go_int 1, ''b'' \<mapsto> Go_string ''2'']\<rparr> =
     (''CREATE TABLE IF NOT EXISTS t(a INTEGER, b VARCHAR)'', None) \<and>
   range_order [''a'' \<mapsto> Go_int 1, ''b'' \<mapsto> Go_nil] [''a'', ''b''] \<and>
   CreateTableQueryString [''a'', ''b'']
       \<lparr>Table = ''t'', Columns = [''a'' \<mapsto> Go_int 1, ''b'' \<mapsto> Go_nil]\<rparr> =
     ('''', Some (New ''create Table: invalid data type for column (b): <nil>''))"
proof -
  let ?good = "\<lparr>Table = ''t'', Columns = [''a'' \<mapsto> Go_int 1, ''b'' \<mapsto> Go_string ''2'']\<rparr>"
  let ?bad = "\<lparr>Table = ''t'', Columns = [''a'' \<mapsto> Go_int 1, ''b'' \<mapsto> Go_nil]\<rparr>"
  have g: "range_order (Columns ?good) [''a'', ''b'']" by (auto simp: range_order_def)
  have b: "range_order (Columns ?bad) [''a'', ''b'']" by (auto simp: range_order_def)
  have ng: "\<not> (\<exists>k v. Columns ?good k = Some v \<and> NewDataType v = INVALID)"
    by (auto split: if_splits)
  have nb: "\<exists>k v. Columns ?bad k = Some v \<and> NewDataType v = INVALID"
    by (intro exI [of _ "''b''"] exI [of _ Go_nil]) simp
  from CreateTableQueryString_all_or_nothing [OF g, THEN conjunct2, rule_format, OF ng]
  obtain defs where
    "CreateTableQueryString [''a'', ''b''] ?good =
       (''CREATE TABLE IF NOT EXISTS t('' @ Join defs '', '' @ '')'', None)"
    "length defs = 2"
    "\<forall>i < 2. \<exists>v. Columns ?good ([''a'', ''b''] ! i) = Some v \<and>
         defs ! i = [''a'', ''b''] ! i @ '' '' @ DBType (NewDataType v)"
    by auto
  moreover from this(3) [rule_format, of 0] this(3) [rule_format, of 1]
  have "defs ! 0 = ''a INTEGER''" "defs ! 1 = ''b VARCHAR''" by simp_all
  ultimately have "defs = [''a INTEGER'', ''b VARCHAR'']"
    by (cases defs; cases "tl defs"; cases "tl (tl defs)") auto
  with \<open>CreateTableQueryString [''a'', ''b''] ?good = _\<close>
  have 1: "CreateTableQueryString [''a'', ''b''] ?good =
     (''CREATE TABLE IF NOT EXISTS t(a INTEGER, b VARCHAR)'', None)" by simp
  from CreateTableQueryString_all_or_nothing [OF b, THEN conjunct1, rule_format, OF nb]
  obtain k v where
    kv: "Columns ?bad k = Some v" "NewDataType v = INVALID"
    "CreateTableQueryString [''a'', ''b''] ?bad =
       ('''', Some (New (''create Table: invalid data type for column ('' @ k @ ''): ''
                                    @ type_name v)))"
    by blast
  from kv(1,2) have "k = ''b'' \<and> v = Go_nil" by (auto split: if_splits)
  with kv(3) have 2: "CreateTableQueryString [''a'', ''b''] ?bad =
     ('''', Some (New ''create Table: invalid data type for column (b): <nil>''))" by simp
  from g b 1 2 show ?thesis by simp
qed

text \<open>
  Claim C6. The add-column builder fails when the name is not a column of the statement,
  fails when the value of that column has the kind INVALID, and otherwise returns
  \<^verbatim>\<open>ALTER TABLE <table> ADD COLUMN <col> <DBTYPE>\<close> with the DB type inferred for that
  column's value.
\<close>

theorem AddColumnQueryString_cases:
  "(Columns s name = None \<longrightarrow>
      AddColumnQueryString s name =
        ('''', Some (New (''add column: column not present in InsertStatement: '' @ name)))) \<and>
   (\<forall>v. Columns s name = Some v \<and> NewDataType v = INVALID \<longrightarrow>
      AddColumnQueryString s name =
        ('''', Some (New (''add column: invalid data type for column ('' @ name @ ''): ''
                          @ type_name v)))) \<and>
   (\<forall>v. Columns s name = Some v \<and> NewDataType v \<noteq> INVALID \<longrightarrow>
      AddColumnQueryString s name =
        (''ALTER TABLE '' @ Table s @ '' ADD COLUMN '' @ name @ '' '' @ DBType (NewDataType v), None))"
  by (simp add: AddColumnQueryString_def Valid_def)

text \<open>
  The three cases at one statement: an absent column, a nil value, a float.
\<close>

theorem AddColumnQueryString_cases_witness:
  "AddColumnQueryString \<lparr>Table = ''t'', Columns = [''a'' \<mapsto> Go_float64 0, ''b'' \<mapsto> Go_nil]\<rparr> ''c'' =
     ('''', Some (New ''add column: column not present in InsertStatement: c'')) \<and>
   AddColumnQueryString \<lparr>Table = ''t'', Columns = [''a'' \<mapsto> Go_float64 0, ''b'' \<mapsto> Go_nil]\<rparr> ''b'' =
     ('''', Some (New ''add column: invalid data type for column (b): <nil>'')) \<and>
   AddColumnQueryString \<lparr>Table = ''t'', Columns = [''a'' \<mapsto> Go_float64 0, ''b'' \<mapsto> Go_nil]\<rparr> ''a'' =
     (''ALTER TABLE t ADD COLUMN a DOUBLE'', None)"
proof -
  let ?s = "\<lparr>Table = ''t'', Columns = [''a'' \<mapsto> Go_float64 0, ''b'' \<mapsto> Go_nil]\<rparr>"
  have c: "Columns ?s ''c'' = None" by simp
  have b: "Columns ?s ''b'' = Some Go_nil \<and> NewDataType Go_nil = INVALID" by simp
  have a: "Columns ?s ''a'' = Some (Go_float64 0) \<and> NewDataType (Go_float64 0) \<noteq> INVALID" by simp
  from AddColumnQueryString_cases [of ?s "''c''", THEN conjunct1, rule_format, OF c]
    AddColumnQueryString_cases [of ?s "''b''", THEN conjunct2, THEN conjunct1, rule_format, OF b]
    AddColumnQueryString_cases [of ?s "''a''", THEN conjunct2, THEN conjunct2, rule_format, OF a]
  show ?thesis by simp
qed

text \<open>
  Claim C4, as amended. The type inferencer is a total function with exactly one result
  for every value: DOUBLE exactly for float64 and float32, INTEGER exactly for int, int32
  and int64, VARCHAR exactly for strings (whatever their content), BOOLEAN exactly for
  booleans, and INVALID for every other value, among them int8 and int16, the unsigned
  integers, nil, maps and slices.
\<close>

theorem NewDataType_dispatch:
  "(NewDataType v = DOUBLE \<longleftrightarrow> (\<exists>w. v = Go_float64 w) \<or> (\<exists>w. v = Go_float32 w)) \<and>
   (NewDataType v = INTEGER \<longleftrightarrow>
      (\<exists>w. v = Go_int w) \<or> (\<exists>w. v = Go_int32 w) \<or> (\<exists>w. v = Go_int64 w)) \<and>
   (NewDataType v = VARCHAR \<longleftrightarrow> (\<exists>s. v = Go_string s)) \<and>
   (NewDataType v = BOOLEAN \<longleftrightarrow> (\<exists>b. v = Go_bool b)) \<and>
   (NewDataType v = INVALID \<longleftrightarrow>
      \<not> ((\<exists>w. v = Go_float64 w) \<or> (\<exists>w. v = Go_float32 w) \<or> (\<exists>w. v = Go_int w) \<or>
         (\<exists>w. v = Go_int32 w) \<or> (\<exists>w. v = Go_int64 w) \<or> (\<exists>s. v = Go_string s) \<or>
         (\<exists>b. v = Go_bool b)))"
  by (cases v) simp_all

text \<open>
  A numeric-looking string is VARCHAR; a 16-bit integer is INVALID.
\<close>

theorem NewDataType_dispatch_witness:
  "NewDataType (Go_string ''42'') = VARCHAR \<and> NewDataType (Go_int16 7) = INVALID \<and>
   NewDataType (Go_int64 7) = INTEGER \<and> NewDataType (Go_float32 0) = DOUBLE \<and>
   NewDataType (Go_bool True) = BOOLEAN \<and> NewDataType Go_nil = INVALID"
  using NewDataType_dispatch [of "Go_string ''42''"] NewDataType_dispatch [of "Go_int16 7"]
    NewDataType_dispatch [of "Go_int64 7"] NewDataType_dispatch [of "Go_float32 0"]
    NewDataType_dispatch [of "Go_bool True"] NewDataType_dispatch [of Go_nil]
  by simp

text \<open>
  Claim C4 as stated fails: an 8-bit signed integer is a signed integer and its kind is
  not INTEGER.
\<close>

theorem NewDataType_int8_counterexample:
  "\<not> (is_signed_integer (Go_int8 1) \<longrightarrow> NewDataType (Go_int8 1) = INTEGER)"
  by simp

section \<open>Validation on the write path\<close>

text \<open>
  Claim C1 says that a statement with an empty table name or without columns is rejected
  before any engine call. \<^verbatim>\<open>Validate\<close> rejects both statements, but \<^verbatim>\<open>Insert\<close> does not
  call it: against the mock engine each of the two statements reaches the engine as an
  INSERT, and \<^verbatim>\<open>Insert\<close> returns nil. The handler of POST /data does call
  \<^verbatim>\<open>Validate\<close> and writes status 400, then goes on to \<^verbatim>\<open>Insert\<close> all the same.
\<close>

theorem Insert_reaches_engine_without_validation:
  "Validate (Some \<lparr>Table = '''', Columns = [''a'' \<mapsto> Go_int 1]\<rparr>) =
     Some (New ''invalid InsertStatement: missing Table name'') \<and>
   Insert mock_ExecContext [''a''] (every_pass [''a'']) ([], [])
       (Some \<lparr>Table = '''', Columns = [''a'' \<mapsto> Go_int 1]\<rparr>) =
     Some (Return None, ([], [(''INSERT INTO  (a) VALUES (?)'', [Go_int 1])])) \<and>
   Validate (Some \<lparr>Table = ''t'', Columns = Map.empty\<rparr>) =
     Some (New ''invalid InsertStatement: no Columns'') \<and>
   Insert mock_ExecContext [] (every_pass []) ([], []) (Some \<lparr>Table = ''t'', Columns = Map.empty\<rparr>) =
     Some (Return None, ([], [(''INSERT INTO t () VALUES ()'', [])])) \<and>
   HandleData mock_ExecContext [''a''] (every_pass [''a'']) ([], []) ''''
       (Inr [''a'' \<mapsto> Go_float64 0x3FF0000000000000]) =
     Some (Return [WriteHeader 400, Write ''invalid InsertStatement: missing Table name'',
                   WriteHeader 200],
           ([], [(''INSERT INTO  (a) VALUES (?)'', [Go_float64 0x3FF0000000000000])]))"
proof -
  have 1: "Insert mock_ExecContext [''a''] (every_pass [''a'']) ([], [])
       (Some \<lparr>Table = '''', Columns = [''a'' \<mapsto> Go_int 1]\<rparr>) =
     Some (Return None, ([], [(''INSERT INTO  (a) VALUES (?)'', [Go_int 1])]))"
    by (simp add: Insert_def InsertStatement_Query_def Insert_loop.simps Insert_step_def every_pass_def
          mock_ExecContext_def)
  have 2: "Insert mock_ExecContext [] (every_pass []) ([], []) (Some \<lparr>Table = ''t'', Columns = Map.empty\<rparr>) =
     Some (Return None, ([], [(''INSERT INTO t () VALUES ()'', [])]))"
    by (simp add: Insert_def InsertStatement_Query_def Insert_loop.simps Insert_step_def every_pass_def
          mock_ExecContext_def)
  have v: "Validate (Some \<lparr>Table = '''', Columns = [''a'' \<mapsto> Go_int 1]\<rparr>) =
     Some (New ''invalid InsertStatement: missing Table name'')"
    "Validate (Some \<lparr>Table = ''t'', Columns = Map.empty\<rparr>) =
     Some (New ''invalid InsertStatement: no Columns'')"
    by (simp_all add: Validate_def)
  have 3: "HandleData mock_ExecContext [''a''] (every_pass [''a'']) ([], []) ''''
       (Inr [''a'' \<mapsto> Go_float64 0x3FF0000000000000]) =
     Some (Return [WriteHeader 400, Write ''invalid InsertStatement: missing Table name'',
                   WriteHeader 200],
           ([], [(''INSERT INTO  (a) VALUES (?)'', [Go_float64 0x3FF0000000000000])]))"
    by (simp add: HandleData_def Validate_def writeError_def Insert_def InsertStatement_Query_def
          Insert_loop.simps Insert_step_def every_pass_def mock_ExecContext_def)
  from 1 2 3 v show ?thesis by simp
qed

section \<open>The matcher and the two patterns\<close>

subsection \<open>Inversion of the matcher\<close>

lemma match_here_Lit_SomeD:
  assumes "match_here (Lit l # ns) s = Some (m, caps)"
  shows "\<exists>rest m'. s = l @ rest \<and> match_here ns rest = Some (m', caps) \<and> m = l @ m'"
proof -
  from assms have p: "prefix l s" by (simp split: if_splits)
  then obtain rest where s: "s = l @ rest" by (auto simp: prefix_def)
  with assms show ?thesis by (auto split: option.splits)
qed

lemma try_runs_SomeD:
  "try_runs cap ns s rs = Some (m, caps) \<Longrightarrow>
   \<exists>r m' caps'. r \<in> set rs \<and> match_here ns (drop (length r) s) = Some (m', caps') \<and>
      m = r @ m' \<and> caps = (if cap then r # caps' else caps')"
  by (induction rs) (auto split: option.splits)

lemma try_runs_None:
  "(\<And>r. r \<in> set rs \<Longrightarrow> match_here ns (drop (length r) s) = None) \<Longrightarrow>
   try_runs cap ns s rs = None"
  by (induction rs) auto

lemma candidates_iff:
  "r \<in> set (rev (tl (prefixes run))) \<longleftrightarrow> prefix r run \<and> r \<noteq> []"
proof -
  have eq: "prefixes run = [] # tl (prefixes run)"
    by (cases run) simp_all
  have "distinct ([] # tl (prefixes run))"
    using distinct_prefixes [of run] eq by simp
  then have notin: "[] \<notin> set (tl (prefixes run))" by simp
  have "set (prefixes run) = insert [] (set (tl (prefixes run)))"
    using eq by (metis list.simps(15))
  then have mem: "prefix r run \<longleftrightarrow> r = [] \<or> r \<in> set (tl (prefixes run))"
    using in_set_prefixes [of r run] by simp
  show ?thesis
  proof (cases "r = []")
    case True
    with notin show ?thesis by simp
  next
    case False
    with mem show ?thesis by simp
  qed
qed

lemma match_here_ClassPlus_SomeD:
  assumes "match_here (ClassPlus cap cls # ns) s = Some (m, caps)"
  shows "\<exists>r rest m' caps'. s = r @ rest \<and> r \<noteq> [] \<and> (\<forall>c \<in> set r. in_class cls c) \<and>
           match_here ns rest = Some (m', caps') \<and> m = r @ m' \<and>
           caps = (if cap then r # caps' else caps')"
proof -
  let ?run = "takeWhile (in_class cls) s"
  from assms have "try_runs cap ns s (rev (tl (prefixes ?run))) = Some (m, caps)" by simp
  from try_runs_SomeD [OF this] obtain r m' caps' where
    r: "r \<in> set (rev (tl (prefixes ?run)))" and
    m: "match_here ns (drop (length r) s) = Some (m', caps')" and
    e: "m = r @ m'" "caps = (if cap then r # caps' else caps')" by blast
  from r [unfolded candidates_iff] have pr: "prefix r ?run" and ne: "r \<noteq> []" by simp_all
  from pr obtain r' where run: "?run = r @ r'" by (auto simp: prefix_def)
  have "s = ?run @ dropWhile (in_class cls) s" by simp
  then have s: "s = r @ (r' @ dropWhile (in_class cls) s)" using run by simp
  then have d: "drop (length r) s = r' @ dropWhile (in_class cls) s"
    by (metis append_eq_conv_conj)
  have "\<forall>c \<in> set ?run. in_class cls c" by (auto dest: set_takeWhileD)
  then have cl: "\<forall>c \<in> set r. in_class cls c" using run by simp
  from s ne cl m e d show ?thesis by metis
qed


lemma match_here_caps:
  "match_here re s = Some (m, caps) \<Longrightarrow> length caps = length (filter capturing re)"
proof (induction re arbitrary: s m caps)
  case Nil
  then show ?case by simp
next
  case (Cons n ns)
  show ?case
  proof (cases n)
    case (Lit l)
    with Cons.prems obtain rest m' where "match_here ns rest = Some (m', caps)"
      using match_here_Lit_SomeD by blast
    from Cons.IH [OF this] Lit show ?thesis by (simp add: capturing_def)
  next
    case (ClassPlus cap cls)
    with Cons.prems obtain r rest m' caps' where
      "match_here ns rest = Some (m', caps')" "caps = (if cap then r # caps' else caps')"
      using match_here_ClassPlus_SomeD by blast
    with Cons.IH [OF this(1)] ClassPlus show ?thesis by (simp add: capturing_def)
  qed
qed






text \<open>Skipping text in which the pattern cannot start.\<close>

lemma match_here_Lit_first:
  "s = [] \<or> hd s \<noteq> c \<Longrightarrow> match_here (Lit (c # l) # ns) s = None"
  by (cases s) auto
















section \<open>The error classifier\<close>
















section \<open>Names the patterns do not match\<close>









section \<open>The retry loop\<close>















section \<open>The read path\<close>

lemma row_fill_other: "k \<notin> fst ` set kvs \<Longrightarrow> row_fill kvs m k = m k"
proof (induction kvs arbitrary: m)
  case Nil
  then show ?case by simp
next
  case (Cons kv rest)
  obtain c v where kv: "kv = (c, v)" by (cases kv)
  from Cons.prems kv have ne: "k \<noteq> c" and notin: "k \<notin> fst ` set rest" by auto
  have "row_fill (kv # rest) m k = row_fill rest (m(c \<mapsto> v)) k"
    by (simp only: kv row_fill.simps)
  also have "\<dots> = (m(c \<mapsto> v)) k" using notin by (rule Cons.IH)
  also have "\<dots> = m k" using ne by simp
  finally show ?case .
qed

lemma row_fill_entry:
  "distinct (map fst kvs) \<Longrightarrow> (k, v) \<in> set kvs \<Longrightarrow> row_fill kvs m k = Some v"
proof (induction kvs arbitrary: m)
  case Nil
  then show ?case by simp
next
  case (Cons kv rest)
  obtain c x where kv: "kv = (c, x)" by (cases kv)
  from Cons.prems(1) kv have d: "distinct (map fst rest)" and c: "c \<notin> fst ` set rest" by auto
  have step: "row_fill (kv # rest) m k = row_fill rest (m(c \<mapsto> x)) k"
    by (simp only: kv row_fill.simps)
  show ?case
  proof (cases "(k, v) = (c, x)")
    case True
    with c have "k \<notin> fst ` set rest" by simp
    then have "row_fill rest (m(c \<mapsto> x)) k = (m(c \<mapsto> x)) k" by (rule row_fill_other)
    with True step show ?thesis by simp
  next
    case False
    with Cons.prems(2) kv have "(k, v) \<in> set rest" by auto
    with d have "row_fill rest (m(c \<mapsto> x)) k = Some v" by (rule Cons.IH)
    with step show ?thesis by simp
  qed
qed

lemma row_fill_dom: "dom (row_fill kvs m) = dom m \<union> fst ` set kvs"
proof (induction kvs arbitrary: m)
  case Nil
  then show ?case by simp
next
  case (Cons kv rest)
  obtain c x where kv: "kv = (c, x)" by (cases kv)
  have "row_fill (kv # rest) m = row_fill rest (m(c \<mapsto> x))"
    by (simp only: kv row_fill.simps)
  then have "dom (row_fill (kv # rest) m) = dom (m(c \<mapsto> x)) \<union> fst ` set rest"
    by (simp only: Cons.IH)
  also have "\<dots> = dom m \<union> fst ` set (kv # rest)" by (auto simp: kv)
  finally show ?case .
qed

lemma fst_set_zip: "length vals = length cols \<Longrightarrow> fst ` set (zip cols vals) = set cols"
  by (metis list.set_map map_fst_zip)

lemma row_map_nth:
  assumes "distinct cols" "length vals = length cols" "i < length cols"
  shows "row_map cols vals (cols ! i) = Some (vals ! i)"
proof -
  have "distinct (map fst (zip cols vals))" using assms(1,2) by simp
  moreover have "(cols ! i, vals ! i) \<in> set (zip cols vals)"
    using assms(2,3) by (auto simp: set_zip)
  ultimately show ?thesis unfolding row_map_def by (rule row_fill_entry)
qed

lemma row_map_dom: "length vals = length cols \<Longrightarrow> dom (row_map cols vals) = set cols"
  by (simp add: row_map_def row_fill_dom fst_set_zip)

lemma scan_rows_all:
  "scan_rows cols (map Inr valss) out = Inr (out @ map (row_map cols) valss)"
  by (induction valss arbitrary: out) simp_all

text \<open>
  Claim C8. \<^verbatim>\<open>Store.Query\<close> returns a validation error for a nil statement and for an
  empty query text, whatever the engine is and leaving its state as it was: the engine is
  not called. Otherwise the engine is given the query text as it is, and when it answers
  with columns \<open>cols\<close> and rows that scan without error, the result has one mapping per
  row, in order; the mapping of a row has the reported column names as its keys and, the
  names being distinct, maps each name to the value the engine reported in that position,
  unchanged.
\<close>

theorem Store_Query_validates_then_passes_through:
  "Store_Query query db None = (Return ([], Some (New ''invalid QueryStatement: nil'')), db) \<and>
   (\<forall>stmt. Query stmt = '''' \<longrightarrow>
      Store_Query query db (Some stmt) =
        (Return ([], Some (New ''invalid QueryStatement: Query empty'')), db)) \<and>
   (\<forall>stmt rows db' cols valss.
      Query stmt \<noteq> '''' \<and> query db (Query stmt) = (Inr rows, db') \<and>
      rows_Columns rows = Inr cols \<and> rows_Scan rows = map Inr valss \<and> rows_Err rows = None \<longrightarrow>
        Store_Query query db (Some stmt) = (Return (map (row_map cols) valss, None), db') \<and>
        (\<forall>vals \<in> set valss. length vals = length cols \<longrightarrow>
           dom (row_map cols vals) = set cols \<and>
           (distinct cols \<longrightarrow> (\<forall>i < length cols. row_map cols vals (cols ! i) = Some (vals ! i)))))"
  by (auto simp: Store_Query_def QueryStatement_Valid_def scan_rows_all row_map_dom row_map_nth)

text \<open>
  One row with two columns against the mock of the read side, which counts one call; the
  empty query text leaves the count at zero.
\<close>

theorem Store_Query_validates_then_passes_through_witness:
  "Query \<lparr>Query = ''select * from test_table''\<rparr> \<noteq> '''' \<and>
   Store_Query
       (mock_QueryContext
          \<lparr>rows_Columns = Inr [''column_a'', ''column_b''],
           rows_Scan = [Inr [Go_int32 1, Go_string ''2'']], rows_Err = None\<rparr>)
       0 (Some \<lparr>Query = ''select * from test_table''\<rparr>) =
     (Return ([row_map [''column_a'', ''column_b''] [Go_int32 1, Go_string ''2'']], None), 1) \<and>
   row_map [''column_a'', ''column_b''] [Go_int32 1, Go_string ''2''] ''column_a'' = Some (Go_int32 1) \<and>
   row_map [''column_a'', ''column_b''] [Go_int32 1, Go_string ''2''] ''column_b''
     = Some (Go_string ''2'') \<and>
   Store_Query
       (mock_QueryContext
          \<lparr>rows_Columns = Inr [''column_a'', ''column_b''],
           rows_Scan = [Inr [Go_int32 1, Go_string ''2'']], rows_Err = None\<rparr>)
       0 (Some \<lparr>Query = ''''\<rparr>) =
     (Return ([], Some (New ''invalid QueryStatement: Query empty'')), 0)"
proof -
  let ?rows = "\<lparr>rows_Columns = Inr [''column_a'', ''column_b''],
           rows_Scan = [Inr [Go_int32 1, Go_string ''2'']], rows_Err = None\<rparr>"
  let ?stmt = "\<lparr>Query = ''select * from test_table''\<rparr>"
  let ?cols = "[''column_a'', ''column_b'']"
  let ?vals = "[Go_int32 1, Go_string ''2'']"
  have h: "Query ?stmt \<noteq> '''' \<and>
      mock_QueryContext ?rows 0 (Query ?stmt) = (Inr ?rows, Suc 0) \<and>
      rows_Columns ?rows = Inr ?cols \<and> rows_Scan ?rows = map Inr [?vals] \<and>
      rows_Err ?rows = None"
    by (simp add: mock_QueryContext_def)
  note t = Store_Query_validates_then_passes_through [of "mock_QueryContext ?rows" 0]
  note r = t [THEN conjunct2, THEN conjunct2, rule_format, OF h]
  note e = t [THEN conjunct2, THEN conjunct1, rule_format, of "\<lparr>Query = ''''\<rparr>"]
  from r have 1: "Store_Query (mock_QueryContext ?rows) 0 (Some ?stmt) =
      (Return ([row_map ?cols ?vals], None), 1)" by simp
  from r have "\<forall>i < length ?cols. row_map ?cols ?vals (?cols ! i) = Some (?vals ! i)" by simp
  from this [rule_format, of 0] this [rule_format, of 1]
  have 2: "row_map ?cols ?vals ''column_a'' = Some (Go_int32 1)"
    "row_map ?cols ?vals ''column_b'' = Some (Go_string ''2'')" by simp_all
  from 1 2 e show ?thesis by simp
qed

end
